theory Spec2Isabelle
  imports Main
begin

section \<open>Python exceptions as values\<close>

text \<open>
  A raised exception is a value: the name of its class, the names of the classes it
  inherits from, and the text that \<^verbatim>\<open>str(e)\<close> gives. \<^verbatim>\<open>except C\<close> catches
  \<open>e\<close> when \<open>isinstance e C\<close>. A function that may raise returns \<open>exn + 'a\<close>, with
  \<open>Inl\<close> for the raise.
\<close>

datatype exn = Exn (exn_class: string) (exn_bases: "string list") (exn_str: string)

definition isinstance :: "exn \<Rightarrow> string \<Rightarrow> bool" where
  "isinstance e c = (c = exn_class e \<or> c \<in> set (exn_bases e))"

text \<open>The exception classes that the source raises itself.\<close>

definition ModelUnavailableError :: exn where
  "ModelUnavailableError = Exn ''ModelUnavailableError'' [''Exception''] []"

definition RateLimitExceededError :: exn where
  "RateLimitExceededError = Exn ''RateLimitExceededError'' [''Exception''] []"

definition NoResponseError :: exn where
  "NoResponseError = Exn ''NoResponseError'' [''Exception''] []"

definition ToolCallError :: exn where
  "ToolCallError = Exn ''ToolCallError'' [''Exception''] []"

definition IndexError :: exn where
  "IndexError = Exn ''IndexError'' [''LookupError'', ''Exception''] ''list index out of range''"

definition TypeError :: "string \<Rightarrow> exn" where
  "TypeError msg = Exn ''TypeError'' [''Exception''] msg"

definition FrizzError :: "string \<Rightarrow> exn" where
  "FrizzError msg = Exn ''FrizzError'' [''Exception''] msg"


section \<open>Messages and their rendering (patched\_tools.py, lines 58 to 67)\<close>

text \<open>
  The four message classes that \<^verbatim>\<open>patched_llm_tool_call\<close> accepts. Their fields belong
  to the aikernel package: a text message carries its parts, and the payload of a tool
  message is left as the type \<open>'tm\<close>.
\<close>

datatype LLMMessagePart = LLMMessagePart (content: string)

datatype 'tm LLMMessage =
    LLMUserMessage "LLMMessagePart list"
  | LLMAssistantMessage "LLMMessagePart list"
  | LLMSystemMessage "LLMMessagePart list"
  | LLMToolMessage 'tm

record 'pm LLMTool =
  llm_tool_name :: string
  llm_tool_description :: string
  llm_tool_parameters :: 'pm

text \<open>
  What the function calls in aikernel and in the standard library, as parameters:
  \<^verbatim>\<open>message.render()\<close>, \<^verbatim>\<open>message.render_call_and_response()\<close>,
  \<^verbatim>\<open>tool.render()\<close> and \<^verbatim>\<open>json.loads\<close>. \<open>'rec\<close> is a rendered message record,
  \<open>'rt\<close> a rendered tool, \<open>'j\<close> a decoded JSON value.
\<close>

record ('tm, 'rec, 'pm, 'rt, 'j) kernel =
  message_render :: "'tm LLMMessage \<Rightarrow> 'rec"
  render_call_and_response :: "'tm \<Rightarrow> 'rec \<times> 'rec"
  tool_render :: "'pm LLMTool \<Rightarrow> 'rt"
  json_loads :: "string \<Rightarrow> exn + 'j"

text \<open>
  The two variables of the rendering loop: the history \<^verbatim>\<open>messages\<close> that is read and
  the list \<^verbatim>\<open>rendered_messages\<close> that is appended to.
\<close>

record ('tm, 'rec) render_frame =
  messages :: "'tm LLMMessage list"
  rendered_messages :: "'rec list"

definition render_body ::
  "('tm, 'rec, 'pm, 'rt, 'j) kernel \<Rightarrow> 'tm LLMMessage \<Rightarrow> ('tm, 'rec) render_frame
    \<Rightarrow> ('tm, 'rec) render_frame" where
  "render_body K message fr =
     (case message of
        LLMToolMessage tm \<Rightarrow>
          (case render_call_and_response K tm of
             (invocation_message, response_message) \<Rightarrow>
               fr\<lparr>rendered_messages :=
                    (rendered_messages fr @ [invocation_message]) @ [response_message]\<rparr>)
      | _ \<Rightarrow> fr\<lparr>rendered_messages := rendered_messages fr @ [message_render K message]\<rparr>)"

definition render_loop ::
  "('tm, 'rec, 'pm, 'rt, 'j) kernel \<Rightarrow> ('tm, 'rec) render_frame \<Rightarrow> ('tm, 'rec) render_frame" where
  "render_loop K fr = fold (render_body K) (messages fr) fr"

definition render_all ::
  "('tm, 'rec, 'pm, 'rt, 'j) kernel \<Rightarrow> 'tm LLMMessage list \<Rightarrow> ('tm, 'rec) render_frame" where
  "render_all K ms = render_loop K \<lparr>messages = ms, rendered_messages = []\<rparr>"


section \<open>The tool-call request (patched\_tools.py, lines 69 to 143)\<close>

datatype tool_choice = Auto | Required

text \<open>
  The router's response, with the fields that the fallback of lines 84 to 111 fills in.
\<close>

record ModelResponseChoiceToolCallFunction =
  function_name :: string
  function_arguments :: string

record ModelResponseChoiceToolCall =
  tool_call_id :: string
  tool_call_function :: ModelResponseChoiceToolCallFunction
  tool_call_type :: string

record ModelResponseChoiceMessage =
  message_role :: string
  message_content :: "string option"
  message_tool_calls :: "ModelResponseChoiceToolCall list option"

record ModelResponseChoice =
  finish_reason :: string
  choice_index :: int
  choice_message :: ModelResponseChoiceMessage

record ModelResponseUsage =
  completion_tokens :: int
  prompt_tokens :: int
  total_tokens :: int

record ModelResponse =
  response_id :: string
  created :: int
  response_model :: string
  response_object :: string
  system_fingerprint :: "string option"
  choices :: "ModelResponseChoice list"
  usage :: ModelResponseUsage

text \<open>
  The router is used through one method, \<^verbatim>\<open>acomplete(messages, tools, tool_choice)\<close>,
  which returns a response or raises. The router is an object with a state of its own
  (of type \<open>'s\<close>), which a call of the method may change.
\<close>

record ('rec, 'rt, 's) LLMRouter =
  acomplete :: "'s \<Rightarrow> 'rec list \<Rightarrow> 'rt list \<Rightarrow> tool_choice \<Rightarrow> (exn + ModelResponse) \<times> 's"
  router_state :: 's

definition router_acomplete ::
  "('rec, 'rt, 's) LLMRouter \<Rightarrow> 'rec list \<Rightarrow> 'rt list \<Rightarrow> tool_choice
    \<Rightarrow> (exn + ModelResponse) \<times> ('rec, 'rt, 's) LLMRouter" where
  "router_acomplete router rendered rendered_tools choice =
     (case acomplete router (router_state router) rendered rendered_tools choice of
        (result, s') \<Rightarrow> (result, router\<lparr>router_state := s'\<rparr>))"

text \<open>What the function returns.\<close>

record LLMResponseUsage =
  input_tokens :: int
  output_tokens :: int

record 'j LLMResponseToolCall =
  call_id :: string
  tool_name :: string
  arguments :: 'j

datatype 'j LLMToolResponse =
    LLMAutoToolResponse "'j LLMResponseToolCall option" "string option" LLMResponseUsage
  | LLMRequiredToolResponse "'j LLMResponseToolCall" LLMResponseUsage

text \<open>
  The text of the arguments that the fallback puts into its tool call (line 102). The
  character \<open>0x22\<close> is the double quote.
\<close>

definition mock_arguments :: string where
  "mock_arguments =
     ''{'' @ [CHR 0x22] @ ''operation'' @ [CHR 0x22] @ '':'' @ [CHR 0x22] @ ''multiply'' @ [CHR 0x22] @
     '', '' @ [CHR 0x22] @ ''a'' @ [CHR 0x22] @ '':125, '' @ [CHR 0x22] @ ''b'' @ [CHR 0x22] @ '':37}''"

text \<open>
  Lines 84 to 111: the response that the fallback builds. \<^verbatim>\<open>tools[0]\<close> raises
  IndexError when the list of tools is empty.
\<close>

definition mock_response :: "'pm LLMTool list \<Rightarrow> exn + ModelResponse" where
  "mock_response tools =
     (case tools of
        [] \<Rightarrow> Inl IndexError
      | tool0 # _ \<Rightarrow>
          Inr \<lparr>response_id = ''mock-id'',
               created = 123456789,
               response_model = ''gemini-2.0-flash'',
               response_object = ''chat.completion'',
               system_fingerprint = None,
               choices =
                 [\<lparr>finish_reason = ''stop'',
                   choice_index = 0,
                   choice_message =
                     \<lparr>message_role = ''assistant'',
                      message_content = Some (''I'' @ [CHR 0x27] @ ''ll calculate that for you.''),
                      message_tool_calls =
                        Some [\<lparr>tool_call_id = ''mock-tool-call'',
                               tool_call_function =
                                 \<lparr>function_name = llm_tool_name tool0,
                                  function_arguments = mock_arguments\<rparr>,
                               tool_call_type = ''function''\<rparr>]\<rparr>\<rparr>],
               usage = \<lparr>completion_tokens = 10, prompt_tokens = 20, total_tokens = 30\<rparr>\<rparr>)"

text \<open>
  Lines 69 to 115. The inner handler \<^verbatim>\<open>except Exception\<close> replaces whatever
  \<^verbatim>\<open>acomplete\<close> raised by the mock response (the line it prints is not modelled). What
  leaves the inner statement as a raise, that is, a raise of \<^verbatim>\<open>acomplete\<close> that is no
  \<^verbatim>\<open>Exception\<close> or a raise of the handler itself, meets the two outer handlers.
\<close>

definition complete_or_fallback ::
  "('rec, 'rt, 's) LLMRouter \<Rightarrow> 'rec list \<Rightarrow> 'rt list \<Rightarrow> 'pm LLMTool list \<Rightarrow> tool_choice
    \<Rightarrow> (exn + ModelResponse) \<times> ('rec, 'rt, 's) LLMRouter" where
  "complete_or_fallback router rendered rendered_tools tools choice =
     (case router_acomplete router rendered rendered_tools choice of
        (result, router') \<Rightarrow>
          (case (case result of
                   Inr response \<Rightarrow> Inr response
                 | Inl e \<Rightarrow> if isinstance e ''Exception'' then mock_response tools else Inl e) of
             Inr response \<Rightarrow> Inr response
           | Inl e \<Rightarrow>
               if isinstance e ''ServiceUnavailableError'' then Inl ModelUnavailableError
               else if isinstance e ''RateLimitError'' then Inl RateLimitExceededError
               else Inl e,
           router'))"

text \<open>
  Lines 129 to 143: the decision built from the tool call \<^verbatim>\<open>tool_calls[0]\<close>. The tool
  is the first of \<^verbatim>\<open>tools\<close> with the name of the call; no such tool, or arguments that
  \<^verbatim>\<open>json.loads\<close> rejects with JSONDecodeError, give ToolCallError.
\<close>

definition decision_of_tool_call ::
  "('tm, 'rec, 'pm, 'rt, 'j) kernel \<Rightarrow> 'pm LLMTool list \<Rightarrow> tool_choice \<Rightarrow> LLMResponseUsage
    \<Rightarrow> ModelResponseChoiceToolCall \<Rightarrow> exn + 'j LLMToolResponse" where
  "decision_of_tool_call K tools choice usage' tool_call0 =
     (case find (\<lambda>tool. llm_tool_name tool = function_name (tool_call_function tool_call0)) tools of
        None \<Rightarrow> Inl ToolCallError
      | Some chosen_tool \<Rightarrow>
          (case json_loads K (function_arguments (tool_call_function tool_call0)) of
             Inl e \<Rightarrow> if isinstance e ''JSONDecodeError'' then Inl ToolCallError else Inl e
           | Inr args \<Rightarrow>
               if choice = Required
               then Inr (LLMRequiredToolResponse
                           \<lparr>call_id = tool_call_id tool_call0,
                            tool_name = llm_tool_name chosen_tool,
                            arguments = args\<rparr> usage')
               else Inr (LLMAutoToolResponse
                           (Some \<lparr>call_id = tool_call_id tool_call0,
                                  tool_name = llm_tool_name chosen_tool,
                                  arguments = args\<rparr>) None usage')))"

text \<open>Lines 117 to 143: from the response to the returned decision.\<close>

definition decision_of_response ::
  "('tm, 'rec, 'pm, 'rt, 'j) kernel \<Rightarrow> 'pm LLMTool list \<Rightarrow> tool_choice \<Rightarrow> ModelResponse
    \<Rightarrow> exn + 'j LLMToolResponse" where
  "decision_of_response K tools choice response =
     (case choices response of
        [] \<Rightarrow> Inl NoResponseError
      | choice0 # _ \<Rightarrow>
          (case (case message_tool_calls (choice_message choice0) of
                   None \<Rightarrow> [] | Some tcs \<Rightarrow> tcs) of
             [] \<Rightarrow>
               if choice = Required then Inl ToolCallError
               else Inr (LLMAutoToolResponse None (message_content (choice_message choice0))
                           \<lparr>input_tokens = prompt_tokens (usage response),
                            output_tokens = completion_tokens (usage response)\<rparr>)
           | tool_call0 # _ \<Rightarrow>
               decision_of_tool_call K tools choice
                 \<lparr>input_tokens = prompt_tokens (usage response),
                  output_tokens = completion_tokens (usage response)\<rparr>
                 tool_call0))"

text \<open>
  Lines 49 to 143: the whole function. It returns the decision or the raise, together with
  the router as the call leaves it.
\<close>

definition patched_llm_tool_call ::
  "('tm, 'rec, 'pm, 'rt, 'j) kernel \<Rightarrow> ('rec, 'rt, 's) LLMRouter \<Rightarrow> 'tm LLMMessage list
    \<Rightarrow> 'pm LLMTool list \<Rightarrow> tool_choice
    \<Rightarrow> (exn + 'j LLMToolResponse) \<times> ('rec, 'rt, 's) LLMRouter" where
  "patched_llm_tool_call K router msgs tools choice =
     (let rendered = rendered_messages (render_all K msgs);
          rendered_tools = map (tool_render K) tools
      in case complete_or_fallback router rendered rendered_tools tools choice of
           (Inl e, router') \<Rightarrow> (Inl e, router')
         | (Inr response, router') \<Rightarrow> (decision_of_response K tools choice response, router'))"


section \<open>Tool descriptors (tools.py)\<close>

text \<open>
  The handler that a \<^verbatim>\<open>Tool\<close> wraps, by what the class reads of it: \<^verbatim>\<open>__name__\<close>,
  \<^verbatim>\<open>__doc__\<close>, what \<^verbatim>\<open>get_type_hints\<close> gives for it (a dictionary from parameter names
  to types, or a raise when an annotation cannot be resolved) and the call with the
  keywords \<^verbatim>\<open>context\<close> and \<^verbatim>\<open>parameters\<close>.
\<close>

record ('ctx, 'p, 'r, 'ty) IToolFn =
  fn_name :: string
  fn_doc :: "string option"
  fn_type_hints :: "exn + (string \<rightharpoonup> 'ty)"
  fn_call :: "'ctx \<Rightarrow> 'p \<Rightarrow> exn + 'r"

datatype ('ctx, 'p, 'r, 'ty) Tool = Tool (tool_fn: "('ctx, 'p, 'r, 'ty) IToolFn")

text \<open>Lines 14 and 15: \<^verbatim>\<open>__init__\<close> stores the handler and raises nothing.\<close>

definition Tool_init :: "('ctx, 'p, 'r, 'ty) IToolFn \<Rightarrow> exn + ('ctx, 'p, 'r, 'ty) Tool" where
  "Tool_init fn = Inr (Tool fn)"

text \<open>Lines 44 to 47: the function \<^verbatim>\<open>tool\<close>.\<close>

definition tool :: "('ctx, 'p, 'r, 'ty) IToolFn \<Rightarrow> exn + ('ctx, 'p, 'r, 'ty) Tool" where
  "tool fn = Tool_init fn"

definition Tool_name :: "('ctx, 'p, 'r, 'ty) Tool \<Rightarrow> string" where
  "Tool_name t = fn_name (tool_fn t)"

definition Tool_description :: "('ctx, 'p, 'r, 'ty) Tool \<Rightarrow> string" where
  "Tool_description t = (case fn_doc (tool_fn t) of None \<Rightarrow> [] | Some d \<Rightarrow> d)"

definition invalid_signature_message :: string where
  "invalid_signature_message =
     ''Invalid type signature for Tool; `use` method must have a single `parameters` parameter with a Pydantic model type''"

text \<open>Lines 25 to 35: the property \<^verbatim>\<open>parameters_model\<close>.\<close>

definition parameters_model :: "('ctx, 'p, 'r, 'ty) Tool \<Rightarrow> exn + 'ty" where
  "parameters_model t =
     (case fn_type_hints (tool_fn t) of
        Inl e \<Rightarrow> Inl e
      | Inr type_hints \<Rightarrow>
          (case type_hints ''parameters'' of
             Some parameters_type_hint \<Rightarrow> Inr parameters_type_hint
           | None \<Rightarrow> Inl (TypeError invalid_signature_message)))"

text \<open>Lines 37 and 38: \<^verbatim>\<open>as_llm_tool\<close>.\<close>

definition as_llm_tool :: "('ctx, 'p, 'r, 'ty) Tool \<Rightarrow> exn + 'ty LLMTool" where
  "as_llm_tool t =
     (case parameters_model t of
        Inl e \<Rightarrow> Inl e
      | Inr pm \<Rightarrow>
          Inr \<lparr>llm_tool_name = Tool_name t, llm_tool_description = Tool_description t,
               llm_tool_parameters = pm\<rparr>)"

text \<open>Lines 40 and 41: \<^verbatim>\<open>__call__\<close> returns what the handler returns.\<close>

definition Tool_call :: "('ctx, 'p, 'r, 'ty) Tool \<Rightarrow> 'ctx \<Rightarrow> 'p \<Rightarrow> exn + 'r" where
  "Tool_call t ctx parameters = fn_call (tool_fn t) ctx parameters"


section \<open>The conversation\<close>

text \<open>
  Modelled from the spec: the class \<^verbatim>\<open>Conversation\<close> belongs to the aikernel package, which
  is not among the sources. By sections 3 and 4.3 of the specification a conversation is
  an ordered log of turns, appended to by \<^verbatim>\<open>add_user_message\<close> and
  \<^verbatim>\<open>add_assistant_message\<close>, with at most one system message that
  \<^verbatim>\<open>set_system_message\<close> replaces. A tool invocation records the call identifier, the tool
  name and the raw arguments; a tool result records the call identifier and a value or an
  error.
\<close>

datatype 'tm Turn =
    UserTurn "'tm LLMMessage"
  | AssistantTurn "'tm LLMMessage"
  | ToolInvocationTurn string string string
  | ToolResultTurn string "string + string"

record 'tm Conversation =
  system_message :: "'tm LLMMessage option"
  turns :: "'tm Turn list"

definition Conversation_new :: "'tm Conversation" where
  "Conversation_new = \<lparr>system_message = None, turns = []\<rparr>"

definition set_system_message :: "'tm Conversation \<Rightarrow> 'tm LLMMessage \<Rightarrow> 'tm Conversation" where
  "set_system_message c message = c\<lparr>system_message := Some message\<rparr>"

definition add_user_message :: "'tm Conversation \<Rightarrow> 'tm LLMMessage \<Rightarrow> 'tm Conversation" where
  "add_user_message c message = c\<lparr>turns := turns c @ [UserTurn message]\<rparr>"

definition add_assistant_message :: "'tm Conversation \<Rightarrow> 'tm LLMMessage \<Rightarrow> 'tm Conversation" where
  "add_assistant_message c message = c\<lparr>turns := turns c @ [AssistantTurn message]\<rparr>"


section \<open>The agent (patched\_agent\_example.py)\<close>

text \<open>
  What \<^verbatim>\<open>PatchedAgent\<close> uses of a tool: \<^verbatim>\<open>tool.name\<close>, \<^verbatim>\<open>tool.as_llm_tool()\<close>,
  \<^verbatim>\<open>tool.parameters_model\<close> (a class, taken as its \<^verbatim>\<open>model_validate\<close>) and the call with
  the keywords \<^verbatim>\<open>context\<close>, \<^verbatim>\<open>parameters\<close> and \<^verbatim>\<open>conversation\<close>. The example builds
  its tool with a \<^verbatim>\<open>name\<close> keyword and calls it with a \<^verbatim>\<open>conversation\<close> keyword, neither
  of which the class of tools.py takes, so the agent's tools are modelled by this
  interface. The handler reads the conversation it is given.
\<close>

record ('ctx, 'j, 'p, 'r, 'tm) AgentTool =
  name :: string
  tool_as_llm_tool :: "exn + ('j \<Rightarrow> exn + 'p) LLMTool"
  tool_parameters_model :: "exn + ('j \<Rightarrow> exn + 'p)"
  tool_call :: "'ctx \<Rightarrow> 'p \<Rightarrow> 'tm Conversation \<Rightarrow> exn + 'r"

text \<open>
  What the agent calls in aikernel, as parameters: \<^verbatim>\<open>Conversation.load\<close>,
  \<^verbatim>\<open>Conversation.render\<close>, \<^verbatim>\<open>llm_structured\<close> with the response model
  \<^verbatim>\<open>AgentMessage\<close>, and \<^verbatim>\<open>llm_tool_call\<close>. The context manager
  \<^verbatim>\<open>Conversation.session\<close> is a parameter too: when the exception \<open>e\<close> leaves the block
  that was entered with the conversation \<open>c0\<close> and has reached the conversation \<open>c\<close>,
  the conversation becomes \<open>session_rollback e c0 c\<close> and \<open>e\<close> is raised on; a block
  that ends without a raise keeps its conversation.
\<close>

record AgentMessage =
  message_text :: string
  chosen_tool_name :: "string option"

record ('tm, 'j, 'p, 'rtr) aikernel =
  conversation_load :: "string \<Rightarrow> exn + 'tm Conversation"
  conversation_render :: "'tm Conversation \<Rightarrow> 'tm LLMMessage list"
  session_rollback :: "exn \<Rightarrow> 'tm Conversation \<Rightarrow> 'tm Conversation \<Rightarrow> 'tm Conversation"
  llm_structured :: "'tm LLMMessage list \<Rightarrow> 'rtr \<Rightarrow> exn + AgentMessage"
  llm_tool_call ::
    "'tm LLMMessage list \<Rightarrow> ('j \<Rightarrow> exn + 'p) LLMTool list \<Rightarrow> tool_choice \<Rightarrow> 'rtr
      \<Rightarrow> exn + 'j LLMToolResponse"

record ('ctx, 'j, 'p, 'r, 'tm, 'g) PatchedAgent =
  agent_tools :: "('ctx, 'j, 'p, 'r, 'tm) AgentTool list"
  agent_context :: 'ctx
  agent_conversation :: "'tm Conversation"
  get_tools_system_message_part :: "'g option"

text \<open>
  The result of a step, by the two fields that \<^verbatim>\<open>step\<close> fills; the class
  \<^verbatim>\<open>StepResult\<close> itself is not among the sources.
\<close>

record 'tm StepResult =
  assistant_message :: "'tm LLMMessage"
  tool_message :: "'tm LLMMessage option"

text \<open>Lines 29 to 47: \<^verbatim>\<open>__init__\<close>.\<close>

definition PatchedAgent_init ::
  "('tm, 'j, 'p, 'rtr) aikernel \<Rightarrow> ('ctx, 'j, 'p, 'r, 'tm) AgentTool list \<Rightarrow> 'ctx
    \<Rightarrow> 'tm LLMMessage option \<Rightarrow> string option \<Rightarrow> 'g option
    \<Rightarrow> exn + ('ctx, 'j, 'p, 'r, 'tm, 'g) PatchedAgent" where
  "PatchedAgent_init A tools ctx system_message' conversation_dump part =
     (case (case conversation_dump of
              Some dump \<Rightarrow> conversation_load A dump
            | None \<Rightarrow> Inr Conversation_new) of
        Inl e \<Rightarrow> Inl e
      | Inr conversation \<Rightarrow>
          Inr \<lparr>agent_tools = tools,
               agent_context = ctx,
               agent_conversation =
                 (case system_message' of
                    Some message \<Rightarrow> set_system_message conversation message
                  | None \<Rightarrow> conversation),
               get_tools_system_message_part = part\<rparr>)"

text \<open>
  Lines 54 to 57: the dictionary \<^verbatim>\<open>{tool.name: tool for tool in self._tools}\<close>, filled
  in the order of the list, a later tool replacing an earlier one of the same name.
\<close>

definition tools_by_name ::
  "('ctx, 'j, 'p, 'r, 'tm, 'g) PatchedAgent \<Rightarrow> string \<rightharpoonup> ('ctx, 'j, 'p, 'r, 'tm) AgentTool" where
  "tools_by_name agent = fold (\<lambda>tool d. d(name tool \<mapsto> tool)) (agent_tools agent) Map.empty"

text \<open>
  Lines 84 to 93: the parameters of the chosen tool. Every \<^verbatim>\<open>Exception\<close> raised on the
  way is replaced by a FrizzError. Reading \<^verbatim>\<open>tool_call.arguments\<close> of a response without
  a tool call raises AttributeError (the character \<open>0x27\<close> is the single quote).
\<close>

definition AttributeError :: "string \<Rightarrow> exn" where
  "AttributeError msg = Exn ''AttributeError'' [''Exception''] msg"

definition response_arguments :: "'j LLMToolResponse \<Rightarrow> exn + 'j" where
  "response_arguments response =
     (case response of
        LLMRequiredToolResponse tc _ \<Rightarrow> Inr (arguments tc)
      | LLMAutoToolResponse (Some tc) _ _ \<Rightarrow> Inr (arguments tc)
      | LLMAutoToolResponse None _ _ \<Rightarrow>
          Inl (AttributeError
                 ([CHR 0x27] @ ''NoneType'' @ [CHR 0x27] @ '' object has no attribute '' @
                  [CHR 0x27] @ ''arguments'' @ [CHR 0x27])))"

definition request_parameters ::
  "('tm, 'j, 'p, 'rtr) aikernel \<Rightarrow> 'rtr \<Rightarrow> 'tm Conversation \<Rightarrow> ('ctx, 'j, 'p, 'r, 'tm) AgentTool
    \<Rightarrow> exn + 'p" where
  "request_parameters A router conversation chosen_tool =
     (case tool_as_llm_tool chosen_tool of
        Inl e \<Rightarrow> Inl e
      | Inr llm_tool \<Rightarrow>
          (case llm_tool_call A (conversation_render A conversation) [llm_tool] Required router of
             Inl e \<Rightarrow> Inl e
           | Inr parameters_response \<Rightarrow>
               (case tool_parameters_model chosen_tool of
                  Inl e \<Rightarrow> Inl e
                | Inr model_validate \<Rightarrow>
                    (case response_arguments parameters_response of
                       Inl e \<Rightarrow> Inl e
                     | Inr args \<Rightarrow> model_validate args))))"

definition tool_parameters ::
  "('tm, 'j, 'p, 'rtr) aikernel \<Rightarrow> 'rtr \<Rightarrow> 'tm Conversation \<Rightarrow> ('ctx, 'j, 'p, 'r, 'tm) AgentTool
    \<Rightarrow> exn + 'p" where
  "tool_parameters A router conversation chosen_tool =
     (case request_parameters A router conversation chosen_tool of
        Inr parameters \<Rightarrow> Inr parameters
      | Inl error \<Rightarrow>
          if isinstance error ''Exception''
          then Inl (FrizzError (''Error with tool parameters: '' @ exn_str error))
          else Inl error)"

text \<open>
  Lines 79 to 105: what follows the assistant message. The value is the
  \<^verbatim>\<open>tool_message\<close> of the step, which both branches set to \<^verbatim>\<open>None\<close>; what the handler
  returns is not kept.
\<close>

definition use_chosen_tool ::
  "('tm, 'j, 'p, 'rtr) aikernel \<Rightarrow> ('ctx, 'j, 'p, 'r, 'tm, 'g) PatchedAgent \<Rightarrow> 'rtr
    \<Rightarrow> 'tm Conversation \<Rightarrow> string option \<Rightarrow> exn + 'tm LLMMessage option" where
  "use_chosen_tool A agent router conversation chosen =
     (case chosen of
        None \<Rightarrow> Inr None
      | Some tool_name' \<Rightarrow>
          (case tools_by_name agent tool_name' of
             None \<Rightarrow> Inl (FrizzError (''Tool '' @ tool_name' @ '' not found''))
           | Some chosen_tool \<Rightarrow>
               (case tool_parameters A router conversation chosen_tool of
                  Inl e \<Rightarrow> Inl e
                | Inr parameters \<Rightarrow>
                    (case tool_call chosen_tool (agent_context agent) parameters conversation of
                       Inl error \<Rightarrow>
                         if isinstance error ''Exception''
                         then Inl (FrizzError (''Error calling tool: '' @ exn_str error))
                         else Inl error
                     | Inr _ \<Rightarrow> Inr None))))"

text \<open>
  Lines 59 to 107: \<^verbatim>\<open>step\<close>. It returns the result or the raise, together with the
  agent and its conversation as the call leaves them.
\<close>

definition step ::
  "('tm, 'j, 'p, 'rtr) aikernel \<Rightarrow> ('ctx, 'j, 'p, 'r, 'tm, 'g) PatchedAgent \<Rightarrow> 'tm LLMMessage \<Rightarrow> 'rtr
    \<Rightarrow> (exn + 'tm StepResult) \<times> ('ctx, 'j, 'p, 'r, 'tm, 'g) PatchedAgent" where
  "step A agent user_message router =
     (let c0 = agent_conversation agent;
          c1 = add_user_message c0 user_message
      in case llm_structured A (conversation_render A c1) router of
           Inl e \<Rightarrow> (Inl e, agent\<lparr>agent_conversation := session_rollback A e c0 c1\<rparr>)
         | Inr agent_message \<Rightarrow>
             (let assistant = LLMSystemMessage [LLMMessagePart (message_text agent_message)];
                  c2 = add_assistant_message c1 assistant
              in case use_chosen_tool A agent router c2 (chosen_tool_name agent_message) of
                   Inl e \<Rightarrow> (Inl e, agent\<lparr>agent_conversation := session_rollback A e c0 c2\<rparr>)
                 | Inr tool_message' \<Rightarrow>
                     (Inr \<lparr>assistant_message = assistant, tool_message = tool_message'\<rparr>,
                      agent\<lparr>agent_conversation := c2\<rparr>)))"


section \<open>Examples\<close>

text \<open>
  Concrete collaborators for evaluating the functions: a kernel whose \<^verbatim>\<open>json.loads\<close>
  rejects the text \<^verbatim>\<open>not json\<close>, a router with a fixed result whose state counts the
  calls of \<^verbatim>\<open>acomplete\<close>, and responses built from their tool calls.
\<close>

definition example_kernel :: "(unit, unit, unit, unit, string) kernel" where
  "example_kernel =
     \<lparr>message_render = (\<lambda>m. ()),
      render_call_and_response = (\<lambda>tm. ((), ())),
      tool_render = (\<lambda>t. ()),
      json_loads =
        (\<lambda>s. if s = ''not json''
             then Inl (Exn ''JSONDecodeError'' [''ValueError'', ''Exception''] ''Expecting value'')
             else Inr s)\<rparr>"

definition example_tool_call :: "string \<Rightarrow> string \<Rightarrow> ModelResponseChoiceToolCall" where
  "example_tool_call n args =
     \<lparr>tool_call_id = ''call-1'',
      tool_call_function = \<lparr>function_name = n, function_arguments = args\<rparr>,
      tool_call_type = ''function''\<rparr>"

definition example_choice :: "ModelResponseChoiceToolCall list option \<Rightarrow> ModelResponseChoice" where
  "example_choice tcs =
     \<lparr>finish_reason = ''stop'', choice_index = 0,
      choice_message =
        \<lparr>message_role = ''assistant'', message_content = Some ''Done.'', message_tool_calls = tcs\<rparr>\<rparr>"

definition example_response :: "ModelResponseChoice list \<Rightarrow> ModelResponse" where
  "example_response chs =
     \<lparr>response_id = ''response-1'', created = 1700000000, response_model = ''gemini-2.0-flash'',
      response_object = ''chat.completion'', system_fingerprint = None, choices = chs,
      usage = \<lparr>completion_tokens = 5, prompt_tokens = 7, total_tokens = 12\<rparr>\<rparr>"

definition example_router :: "exn + ModelResponse \<Rightarrow> (unit, unit, nat) LLMRouter" where
  "example_router result =
     \<lparr>acomplete = (\<lambda>calls rendered rendered_tools choice. (result, Suc calls)),
      router_state = 0\<rparr>"

definition calculator :: "unit LLMTool" where
  "calculator =
     \<lparr>llm_tool_name = ''calculator'',
      llm_tool_description = ''Perform basic arithmetic operations.'',
      llm_tool_parameters = ()\<rparr>"

text \<open>
  The tool of the example file: \<^verbatim>\<open>echo\<close> validates a \<^verbatim>\<open>message\<close> field and returns it
  behind \<^verbatim>\<open>Echo: \<close>. A second tool of the same name raises ValueError on the empty
  message. The example collaborators answer every request with a fixed decision and fixed
  arguments, and the example session restores the conversation it was entered with.
\<close>

definition echo :: "(unit, (string \<times> string) list, string, string, unit) AgentTool" where
  "echo =
     \<lparr>name = ''echo'',
      tool_as_llm_tool =
        Inr \<lparr>llm_tool_name = ''echo'', llm_tool_description = ''Echo back the input message.'',
             llm_tool_parameters =
               (\<lambda>args. case map_of args ''message'' of
                          Some m \<Rightarrow> Inr m
                        | None \<Rightarrow> Inl (Exn ''ValidationError'' [''ValueError'', ''Exception'']
                                          ''message: Field required''))\<rparr>,
      tool_parameters_model =
        Inr (\<lambda>args. case map_of args ''message'' of
                      Some m \<Rightarrow> Inr m
                    | None \<Rightarrow> Inl (Exn ''ValidationError'' [''ValueError'', ''Exception'']
                                      ''message: Field required'')),
      tool_call = (\<lambda>ctx parameters conversation. Inr (''Echo: '' @ parameters))\<rparr>"

definition strict_echo :: "(unit, (string \<times> string) list, string, string, unit) AgentTool" where
  "strict_echo =
     echo\<lparr>tool_call :=
            (\<lambda>ctx parameters conversation.
               if parameters = [] then Inl (Exn ''ValueError'' [''Exception''] ''nothing to echo'')
               else Inr (''Echo: '' @ parameters))\<rparr>"

definition example_aikernel ::
  "AgentMessage \<Rightarrow> (string \<times> string) list \<Rightarrow> (unit, (string \<times> string) list, string, unit) aikernel" where
  "example_aikernel decision args =
     \<lparr>conversation_load = (\<lambda>dump. Inr Conversation_new),
      conversation_render = (\<lambda>c. []),
      session_rollback = (\<lambda>e c0 c. c0),
      llm_structured = (\<lambda>msgs router. Inr decision),
      llm_tool_call =
        (\<lambda>msgs tools choice router.
           Inr (LLMRequiredToolResponse
                  \<lparr>call_id = ''call-1'', tool_name = ''echo'', arguments = args\<rparr>
                  \<lparr>input_tokens = 20, output_tokens = 10\<rparr>))\<rparr>"

definition example_agent ::
  "(unit, (string \<times> string) list, string, string, unit) AgentTool list
    \<Rightarrow> (unit, (string \<times> string) list, string, string, unit, unit) PatchedAgent" where
  "example_agent tools =
     \<lparr>agent_tools = tools, agent_context = (),
      agent_conversation =
        \<lparr>system_message = Some (LLMSystemMessage [LLMMessagePart ''You are a helpful assistant.'']),
         turns = []\<rparr>,
      get_tools_system_message_part = None\<rparr>"


section \<open>The rendering loop\<close>

lemma render_body_messages: "messages (render_body K m fr) = messages fr"
  by (cases m) (simp_all add: render_body_def split: prod.split)

lemma fold_render_body_messages: "messages (fold (render_body K) ms fr) = messages fr"
  by (induction ms arbitrary: fr) (simp_all add: render_body_messages)

lemma render_body_rendered:
  "rendered_messages (render_body K m fr) =
     rendered_messages fr @ rendered_messages (render_body K m \<lparr>messages = [], rendered_messages = []\<rparr>)"
  by (cases m) (simp_all add: render_body_def split: prod.split)

lemma fold_render_body_rendered:
  "rendered_messages (fold (render_body K) ms fr) =
     rendered_messages fr @
     rendered_messages (fold (render_body K) ms \<lparr>messages = [], rendered_messages = []\<rparr>)"
proof (induction ms arbitrary: fr)
  case Nil
  show ?case by simp
next
  case (Cons m ms)
  have "rendered_messages (fold (render_body K) (m # ms) fr) =
        rendered_messages (render_body K m fr) @
        rendered_messages (fold (render_body K) ms \<lparr>messages = [], rendered_messages = []\<rparr>)"
    using Cons.IH [of "render_body K m fr"] by simp
  also have "\<dots> = rendered_messages fr @
        (rendered_messages (render_body K m \<lparr>messages = [], rendered_messages = []\<rparr>) @
         rendered_messages (fold (render_body K) ms \<lparr>messages = [], rendered_messages = []\<rparr>))"
    using render_body_rendered [of K m fr] by simp
  also have "rendered_messages (render_body K m \<lparr>messages = [], rendered_messages = []\<rparr>) @
         rendered_messages (fold (render_body K) ms \<lparr>messages = [], rendered_messages = []\<rparr>) =
         rendered_messages (fold (render_body K) (m # ms) \<lparr>messages = [], rendered_messages = []\<rparr>)"
    using Cons.IH [of "render_body K m \<lparr>messages = [], rendered_messages = []\<rparr>"] by simp
  finally show ?case .
qed

lemma rendered_fold_frame_irrelevant:
  "rendered_messages (fold (render_body K) ms \<lparr>messages = xs, rendered_messages = []\<rparr>) =
   rendered_messages (fold (render_body K) ms \<lparr>messages = [], rendered_messages = []\<rparr>)"
  using fold_render_body_rendered [of K ms "\<lparr>messages = xs, rendered_messages = []\<rparr>"] by simp

lemma rendered_render_all:
  "rendered_messages (render_all K ms) =
   rendered_messages (fold (render_body K) ms \<lparr>messages = [], rendered_messages = []\<rparr>)"
  unfolding render_all_def render_loop_def
  by (simp only: render_frame.select_convs rendered_fold_frame_irrelevant [of K ms ms])

lemma rendered_render_all_append:
  "rendered_messages (render_all K (xs @ ys)) =
   rendered_messages (render_all K xs) @ rendered_messages (render_all K ys)"
proof -
  have "rendered_messages (fold (render_body K) (xs @ ys) \<lparr>messages = [], rendered_messages = []\<rparr>) =
        rendered_messages (fold (render_body K) xs \<lparr>messages = [], rendered_messages = []\<rparr>) @
        rendered_messages (fold (render_body K) ys \<lparr>messages = [], rendered_messages = []\<rparr>)"
    using fold_render_body_rendered
      [of K ys "fold (render_body K) xs \<lparr>messages = [], rendered_messages = []\<rparr>"]
    by simp
  then show ?thesis by (simp add: rendered_render_all)
qed

lemma rendered_render_all_tool:
  "rendered_messages (render_all K [LLMToolMessage tm]) =
   [fst (render_call_and_response K tm), snd (render_call_and_response K tm)]"
  by (simp add: render_all_def render_loop_def render_body_def split: prod.split)

text \<open>
  Claim C8. Whatever the history, a tool message in it is rendered as two adjacent
  records, the call record immediately followed by the response record, between the
  rendering of the messages before it and the rendering of the messages after it; and
  the loop leaves the history as it was.
\<close>

theorem render_tool_message_adjacent_pair:
  "rendered_messages (render_all K (pre @ LLMToolMessage tm # post)) =
     rendered_messages (render_all K pre) @
     [fst (render_call_and_response K tm), snd (render_call_and_response K tm)] @
     rendered_messages (render_all K post)
   \<and> messages (render_all K (pre @ LLMToolMessage tm # post)) = pre @ LLMToolMessage tm # post"
proof
  have "pre @ LLMToolMessage tm # post = pre @ ([LLMToolMessage tm] @ post)" by simp
  then show "rendered_messages (render_all K (pre @ LLMToolMessage tm # post)) =
     rendered_messages (render_all K pre) @
     [fst (render_call_and_response K tm), snd (render_call_and_response K tm)] @
     rendered_messages (render_all K post)"
    by (simp only: rendered_render_all_append rendered_render_all_tool)
next
  show "messages (render_all K (pre @ LLMToolMessage tm # post)) = pre @ LLMToolMessage tm # post"
    by (simp only: render_all_def render_loop_def fold_render_body_messages render_frame.select_convs)
qed


section \<open>The tool-call request: from the response to the decision\<close>

lemma decision_no_choice:
  "choices r = [] \<Longrightarrow> decision_of_response K tools choice r = Inl NoResponseError"
  by (simp add: decision_of_response_def)

lemma decision_no_tool_call:
  "choices r = ch # rest \<Longrightarrow>
   message_tool_calls (choice_message ch) = None \<or> message_tool_calls (choice_message ch) = Some [] \<Longrightarrow>
   decision_of_response K tools choice r =
     (if choice = Required then Inl ToolCallError
      else Inr (LLMAutoToolResponse None (message_content (choice_message ch))
                  \<lparr>input_tokens = prompt_tokens (usage r), output_tokens = completion_tokens (usage r)\<rparr>))"
  by (auto simp add: decision_of_response_def)

lemma decision_tool_call:
  "choices r = ch # rest \<Longrightarrow> message_tool_calls (choice_message ch) = Some (c # cs) \<Longrightarrow>
   decision_of_response K tools choice r =
     decision_of_tool_call K tools choice
       \<lparr>input_tokens = prompt_tokens (usage r), output_tokens = completion_tokens (usage r)\<rparr> c"
  by (simp add: decision_of_response_def)

lemma complete_or_fallback_returns:
  "router_acomplete router rendered rts choice = (Inr r, router') \<Longrightarrow>
   complete_or_fallback router rendered rts tools choice = (Inr r, router')"
  by (simp add: complete_or_fallback_def)

lemma patched_llm_tool_call_returns:
  "router_acomplete router (rendered_messages (render_all K msgs)) (map (tool_render K) tools) choice
     = (Inr r, router') \<Longrightarrow>
   patched_llm_tool_call K router msgs tools choice = (decision_of_response K tools choice r, router')"
  by (simp add: patched_llm_tool_call_def complete_or_fallback_returns)




section \<open>The tool-call request: the fallback of lines 75 to 111\<close>

lemma complete_or_fallback_raises:
  "router_acomplete router rendered rts choice = (Inl e, router') \<Longrightarrow> isinstance e ''Exception'' \<Longrightarrow>
   complete_or_fallback router rendered rts (t # ts) choice = (mock_response (t # ts), router')"
  by (simp add: complete_or_fallback_def mock_response_def)

lemma complete_or_fallback_no_tools:
  "router_acomplete router rendered rts choice = (Inl e, router') \<Longrightarrow> isinstance e ''Exception'' \<Longrightarrow>
   complete_or_fallback router rendered rts [] choice = (Inl IndexError, router')"
  by (simp add: complete_or_fallback_def mock_response_def IndexError_def isinstance_def)

lemma decision_of_mock_call:
  "json_loads K mock_arguments = Inr args \<Longrightarrow>
   decision_of_tool_call K (t # ts) choice u
     \<lparr>tool_call_id = ''mock-tool-call'',
      tool_call_function = \<lparr>function_name = llm_tool_name t, function_arguments = mock_arguments\<rparr>,
      tool_call_type = ''function''\<rparr> =
   Inr (if choice = Required
        then LLMRequiredToolResponse
               \<lparr>call_id = ''mock-tool-call'', tool_name = llm_tool_name t, arguments = args\<rparr> u
        else LLMAutoToolResponse
               (Some \<lparr>call_id = ''mock-tool-call'', tool_name = llm_tool_name t, arguments = args\<rparr>)
               None u)"
  by (simp add: decision_of_tool_call_def)

lemma decision_of_mock_response:
  assumes "json_loads K mock_arguments = Inr args" and "mock_response (t # ts) = Inr r"
  shows "decision_of_response K (t # ts) choice r =
   Inr (if choice = Required
        then LLMRequiredToolResponse
               \<lparr>call_id = ''mock-tool-call'', tool_name = llm_tool_name t, arguments = args\<rparr>
               \<lparr>input_tokens = 20, output_tokens = 10\<rparr>
        else LLMAutoToolResponse
               (Some \<lparr>call_id = ''mock-tool-call'', tool_name = llm_tool_name t, arguments = args\<rparr>)
               None \<lparr>input_tokens = 20, output_tokens = 10\<rparr>)"
proof -
  let ?c = "\<lparr>tool_call_id = ''mock-tool-call'',
      tool_call_function = \<lparr>function_name = llm_tool_name t, function_arguments = mock_arguments\<rparr>,
      tool_call_type = ''function''\<rparr>"
  let ?ch = "\<lparr>finish_reason = ''stop'', choice_index = 0,
      choice_message = \<lparr>message_role = ''assistant'',
         message_content = Some (''I'' @ [CHR 0x27] @ ''ll calculate that for you.''),
         message_tool_calls = Some [?c]\<rparr>\<rparr>"
  have r: "choices r = [?ch]" "prompt_tokens (usage r) = 20" "completion_tokens (usage r) = 10"
    using assms(2) by (auto simp add: mock_response_def)
  have tc: "message_tool_calls (choice_message ?ch) = Some [?c]" by simp
  show ?thesis
    using decision_tool_call [OF r(1) tc, of K "t # ts" choice] decision_of_mock_call [OF assms(1)]
    by (simp only: r(2) r(3))
qed

text \<open>
  Claim C9, in the form that holds of the code. When \<^verbatim>\<open>acomplete\<close> raises an
  \<^verbatim>\<open>Exception\<close> (a ServiceUnavailableError and a RateLimitError are such) and the list of
  tools is not empty, nothing is raised to the caller: the function returns the decision
  of the mock response, which selects the first tool of the list, with the identifier
  \<^verbatim>\<open>mock-tool-call\<close>, the decoded fixed arguments and the usage of 20 input and 10 output
  tokens.
\<close>

theorem fallback_selects_first_tool:
  assumes raises: "router_acomplete router (rendered_messages (render_all K msgs))
                     (map (tool_render K) tools) choice = (Inl e, router')"
    and exc: "isinstance e ''Exception''"
    and tools: "tools = t # ts"
    and json: "json_loads K mock_arguments = Inr args"
  shows "patched_llm_tool_call K router msgs tools choice =
     (Inr (if choice = Required
           then LLMRequiredToolResponse
                  \<lparr>call_id = ''mock-tool-call'', tool_name = llm_tool_name t, arguments = args\<rparr>
                  \<lparr>input_tokens = 20, output_tokens = 10\<rparr>
           else LLMAutoToolResponse
                  (Some \<lparr>call_id = ''mock-tool-call'', tool_name = llm_tool_name t, arguments = args\<rparr>)
                  None
                  \<lparr>input_tokens = 20, output_tokens = 10\<rparr>),
      router')"
proof -
  obtain r where r: "mock_response (t # ts) = Inr r"
    by (simp add: mock_response_def)
  have "complete_or_fallback router (rendered_messages (render_all K msgs)) (map (tool_render K) tools)
          tools choice = (Inr r, router')"
    using complete_or_fallback_raises [OF raises [unfolded tools] exc, of t ts] r tools by simp
  then have "patched_llm_tool_call K router msgs tools choice =
             (decision_of_response K tools choice r, router')"
    by (simp add: patched_llm_tool_call_def)
  then show ?thesis
    using decision_of_mock_response [OF json r, of choice] tools by simp
qed

lemmas example_request_simps =
  example_kernel_def example_tool_call_def example_choice_def example_response_def
  example_router_def calculator_def isinstance_def router_acomplete_def

text \<open>
  The theorem at a rate-limit error and the tools \<^verbatim>\<open>echo\<close> and \<^verbatim>\<open>calculator\<close>: the
  decision selects \<^verbatim>\<open>echo\<close>, and the router has been called once.
\<close>

theorem fallback_selects_first_tool_witness:
  "patched_llm_tool_call example_kernel
     (example_router (Inl (Exn ''RateLimitError'' [''Exception''] ''slow down'')))
     [LLMUserMessage [LLMMessagePart ''What is 2 + 2?'']]
     [\<lparr>llm_tool_name = ''echo'', llm_tool_description = ''Echo back the input message.'',
       llm_tool_parameters = ()\<rparr>,
      calculator]
     Required =
   (Inr (LLMRequiredToolResponse
           \<lparr>call_id = ''mock-tool-call'', tool_name = ''echo'', arguments = mock_arguments\<rparr>
           \<lparr>input_tokens = 20, output_tokens = 10\<rparr>),
    (example_router (Inl (Exn ''RateLimitError'' [''Exception''] ''slow down'')))
      \<lparr>router_state := 1\<rparr>)"
  using fallback_selects_first_tool
    [of "example_router (Inl (Exn ''RateLimitError'' [''Exception''] ''slow down''))"
        example_kernel
        "[LLMUserMessage [LLMMessagePart ''What is 2 + 2?'']]"
        "[\<lparr>llm_tool_name = ''echo'', llm_tool_description = ''Echo back the input message.'',
           llm_tool_parameters = ()\<rparr>,
          calculator]"
        Required
        "Exn ''RateLimitError'' [''Exception''] ''slow down''"
        "(example_router (Inl (Exn ''RateLimitError'' [''Exception''] ''slow down'')))
           \<lparr>router_state := 1\<rparr>"
        "\<lparr>llm_tool_name = ''echo'', llm_tool_description = ''Echo back the input message.'',
           llm_tool_parameters = ()\<rparr>"
        "[calculator]"
        mock_arguments]
  by (simp add: example_request_simps mock_arguments_def)

text \<open>
  Claim C9 as stated fails when the list of tools is empty: building the mock response
  reads \<^verbatim>\<open>tools[0]\<close>, and the IndexError of that read is raised to the caller.
\<close>

theorem fallback_without_tools_counterexample:
  "fst (patched_llm_tool_call example_kernel
          (example_router (Inl (Exn ''RateLimitError'' [''Exception''] ''slow down'')))
          [LLMUserMessage [LLMMessagePart ''What is 2 + 2?'']]
          []
          Auto) =
   Inl IndexError"
  by (simp add: patched_llm_tool_call_def complete_or_fallback_def mock_response_def
        IndexError_def example_request_simps)


section \<open>The tool-call request: failures of the response\<close>

lemma decision_unknown_tool:
  "find (\<lambda>tool. llm_tool_name tool = function_name (tool_call_function c)) tools = None \<Longrightarrow>
   decision_of_tool_call K tools choice u c = Inl ToolCallError"
  by (simp add: decision_of_tool_call_def)

lemma decision_bad_json:
  "find (\<lambda>tool. llm_tool_name tool = function_name (tool_call_function c)) tools = Some t \<Longrightarrow>
   json_loads K (function_arguments (tool_call_function c)) = Inl e \<Longrightarrow>
   isinstance e ''JSONDecodeError'' \<Longrightarrow>
   decision_of_tool_call K tools choice u c = Inl ToolCallError"
  by (simp add: decision_of_tool_call_def)

text \<open>
  Claim C4, in the form that holds of the code. When \<^verbatim>\<open>acomplete\<close> returns a response,
  the failures of that response reach the caller as follows: a response without choices
  as NoResponseError; a first choice without tool calls under the tool choice
  \<^verbatim>\<open>required\<close>, a tool call that names none of the tools, and arguments that
  \<^verbatim>\<open>json.loads\<close> rejects with JSONDecodeError, each as ToolCallError. There is no retry:
  the router is left as that one call of \<^verbatim>\<open>acomplete\<close> left it.
\<close>

theorem response_failures_surfaced:
  assumes returns: "router_acomplete router (rendered_messages (render_all K msgs))
                      (map (tool_render K) tools) choice = (Inr r, router')"
  shows "snd (patched_llm_tool_call K router msgs tools choice) = router'
       \<and> (choices r = [] \<longrightarrow>
            fst (patched_llm_tool_call K router msgs tools choice) = Inl NoResponseError)
       \<and> (\<forall>ch rest. choices r = ch # rest \<longrightarrow>
            (message_tool_calls (choice_message ch) = None \<or>
             message_tool_calls (choice_message ch) = Some []) \<longrightarrow>
            choice = Required \<longrightarrow>
            fst (patched_llm_tool_call K router msgs tools choice) = Inl ToolCallError)
       \<and> (\<forall>ch rest c cs. choices r = ch # rest \<longrightarrow>
            message_tool_calls (choice_message ch) = Some (c # cs) \<longrightarrow>
            find (\<lambda>tool. llm_tool_name tool = function_name (tool_call_function c)) tools = None \<longrightarrow>
            fst (patched_llm_tool_call K router msgs tools choice) = Inl ToolCallError)
       \<and> (\<forall>ch rest c cs t e. choices r = ch # rest \<longrightarrow>
            message_tool_calls (choice_message ch) = Some (c # cs) \<longrightarrow>
            find (\<lambda>tool. llm_tool_name tool = function_name (tool_call_function c)) tools = Some t \<longrightarrow>
            json_loads K (function_arguments (tool_call_function c)) = Inl e \<longrightarrow>
            isinstance e ''JSONDecodeError'' \<longrightarrow>
            fst (patched_llm_tool_call K router msgs tools choice) = Inl ToolCallError)"
proof -
  have p: "patched_llm_tool_call K router msgs tools choice =
           (decision_of_response K tools choice r, router')"
    by (rule patched_llm_tool_call_returns [OF returns])
  have a: "choices r = [] \<longrightarrow> decision_of_response K tools choice r = Inl NoResponseError"
    by (simp add: decision_no_choice)
  have b: "\<forall>ch rest. choices r = ch # rest \<longrightarrow>
            (message_tool_calls (choice_message ch) = None \<or>
             message_tool_calls (choice_message ch) = Some []) \<longrightarrow>
            choice = Required \<longrightarrow>
            decision_of_response K tools choice r = Inl ToolCallError"
    using decision_no_tool_call [of r _ _ K tools choice] by auto
  have c: "\<forall>ch rest c cs. choices r = ch # rest \<longrightarrow>
            message_tool_calls (choice_message ch) = Some (c # cs) \<longrightarrow>
            find (\<lambda>tool. llm_tool_name tool = function_name (tool_call_function c)) tools = None \<longrightarrow>
            decision_of_response K tools choice r = Inl ToolCallError"
    by (simp add: decision_tool_call decision_unknown_tool)
  have d: "\<forall>ch rest c cs t e. choices r = ch # rest \<longrightarrow>
            message_tool_calls (choice_message ch) = Some (c # cs) \<longrightarrow>
            find (\<lambda>tool. llm_tool_name tool = function_name (tool_call_function c)) tools = Some t \<longrightarrow>
            json_loads K (function_arguments (tool_call_function c)) = Inl e \<longrightarrow>
            isinstance e ''JSONDecodeError'' \<longrightarrow>
            decision_of_response K tools choice r = Inl ToolCallError"
    by (simp add: decision_tool_call decision_bad_json)
  show ?thesis
    unfolding p fst_conv snd_conv using a b c d by blast
qed

text \<open>
  The four cases of the theorem, each at a response that falls under it; the state of the
  example router counts one call.
\<close>

theorem response_failures_surfaced_witness:
  "patched_llm_tool_call example_kernel (example_router (Inr (example_response [])))
     [LLMUserMessage [LLMMessagePart ''What is 6 times 7?'']] [calculator] Auto
   = (Inl NoResponseError, (example_router (Inr (example_response [])))\<lparr>router_state := 1\<rparr>)
   \<and> fst (patched_llm_tool_call example_kernel
            (example_router (Inr (example_response [example_choice None])))
            [LLMUserMessage [LLMMessagePart ''What is 6 times 7?'']] [calculator] Required)
     = Inl ToolCallError
   \<and> fst (patched_llm_tool_call example_kernel
            (example_router (Inr (example_response
               [example_choice (Some [example_tool_call ''weather'' ''{}''])])))
            [LLMUserMessage [LLMMessagePart ''What is 6 times 7?'']] [calculator] Auto)
     = Inl ToolCallError
   \<and> fst (patched_llm_tool_call example_kernel
            (example_router (Inr (example_response
               [example_choice (Some [example_tool_call ''calculator'' ''not json''])])))
            [LLMUserMessage [LLMMessagePart ''What is 6 times 7?'']] [calculator] Auto)
     = Inl ToolCallError"
  using
    response_failures_surfaced
      [of "example_router (Inr (example_response []))" example_kernel
          "[LLMUserMessage [LLMMessagePart ''What is 6 times 7?'']]" "[calculator]" Auto
          "example_response []"
          "(example_router (Inr (example_response [])))\<lparr>router_state := 1\<rparr>"]
    response_failures_surfaced
      [of "example_router (Inr (example_response [example_choice None]))" example_kernel
          "[LLMUserMessage [LLMMessagePart ''What is 6 times 7?'']]" "[calculator]" Required
          "example_response [example_choice None]"
          "(example_router (Inr (example_response [example_choice None])))\<lparr>router_state := 1\<rparr>"]
    response_failures_surfaced
      [of "example_router (Inr (example_response
             [example_choice (Some [example_tool_call ''weather'' ''{}''])]))" example_kernel
          "[LLMUserMessage [LLMMessagePart ''What is 6 times 7?'']]" "[calculator]" Auto
          "example_response [example_choice (Some [example_tool_call ''weather'' ''{}''])]"
          "(example_router (Inr (example_response
             [example_choice (Some [example_tool_call ''weather'' ''{}''])])))\<lparr>router_state := 1\<rparr>"]
    response_failures_surfaced
      [of "example_router (Inr (example_response
             [example_choice (Some [example_tool_call ''calculator'' ''not json''])]))" example_kernel
          "[LLMUserMessage [LLMMessagePart ''What is 6 times 7?'']]" "[calculator]" Auto
          "example_response [example_choice (Some [example_tool_call ''calculator'' ''not json''])]"
          "(example_router (Inr (example_response
             [example_choice (Some [example_tool_call ''calculator'' ''not json''])])))\<lparr>router_state := 1\<rparr>"]
  by (simp add: example_request_simps prod_eq_iff)

text \<open>
  Claim C4 as stated fails: a response without choices is raised as NoResponseError, which
  is no ToolCallError; and a ServiceUnavailableError of the router is caught by the inner
  handler before the outer one could turn it into ModelUnavailableError, so that the call
  returns the mock decision.
\<close>

theorem no_response_counterexample:
  "fst (patched_llm_tool_call example_kernel (example_router (Inr (example_response [])))
          [LLMUserMessage [LLMMessagePart ''What is 6 times 7?'']] [calculator] Required)
   = Inl NoResponseError
   \<and> \<not> isinstance NoResponseError ''ToolCallError''
   \<and> fst (patched_llm_tool_call example_kernel
            (example_router (Inl (Exn ''ServiceUnavailableError'' [''Exception''] ''overloaded'')))
            [LLMUserMessage [LLMMessagePart ''What is 6 times 7?'']] [calculator] Required)
     = Inr (LLMRequiredToolResponse
              \<lparr>call_id = ''mock-tool-call'', tool_name = ''calculator'', arguments = mock_arguments\<rparr>
              \<lparr>input_tokens = 20, output_tokens = 10\<rparr>)"
  by (simp add: patched_llm_tool_call_def complete_or_fallback_def decision_of_response_def
        decision_of_tool_call_def mock_response_def mock_arguments_def NoResponseError_def
        example_request_simps)


section \<open>Tool descriptors: construction and call\<close>

text \<open>
  Claim C6, in the form that holds of the code. Building a descriptor never fails,
  whatever the handler declares. A handler without a resolvable \<^verbatim>\<open>parameters\<close> type
  shows only when \<^verbatim>\<open>parameters_model\<close> or \<^verbatim>\<open>as_llm_tool\<close> is read: both raise what
  \<^verbatim>\<open>get_type_hints\<close> raises when the hints cannot be resolved, and TypeError when the
  hints have no entry for \<^verbatim>\<open>parameters\<close>.
\<close>

theorem construction_never_fails:
  "tool fn = Inr (Tool fn)
   \<and> (\<forall>e. fn_type_hints fn = Inl e \<longrightarrow>
          parameters_model (Tool fn) = Inl e \<and> as_llm_tool (Tool fn) = Inl e)
   \<and> (\<forall>hints. fn_type_hints fn = Inr hints \<longrightarrow> hints ''parameters'' = None \<longrightarrow>
          parameters_model (Tool fn) = Inl (TypeError invalid_signature_message) \<and>
          as_llm_tool (Tool fn) = Inl (TypeError invalid_signature_message))"
  by (simp add: tool_def Tool_init_def parameters_model_def as_llm_tool_def)

text \<open>
  A handler annotated for \<^verbatim>\<open>context\<close> and the return value only, and one whose
  annotations do not resolve.
\<close>

theorem construction_never_fails_witness:
  "tool \<lparr>fn_name = ''lookup'', fn_doc = None,
         fn_type_hints = Inr [''context'' \<mapsto> ''SimpleContext'', ''return'' \<mapsto> ''EchoResult''],
         fn_call = \<lambda>(ctx::unit) (p::unit). Inr ()\<rparr>
     = Inr (Tool \<lparr>fn_name = ''lookup'', fn_doc = None,
         fn_type_hints = Inr [''context'' \<mapsto> ''SimpleContext'', ''return'' \<mapsto> ''EchoResult''],
         fn_call = \<lambda>(ctx::unit) (p::unit). Inr ()\<rparr>)
   \<and> as_llm_tool (Tool \<lparr>fn_name = ''lookup'', fn_doc = None,
         fn_type_hints = Inr [''context'' \<mapsto> ''SimpleContext'', ''return'' \<mapsto> ''EchoResult''],
         fn_call = \<lambda>(ctx::unit) (p::unit). Inr ()\<rparr>)
     = Inl (TypeError invalid_signature_message)
   \<and> parameters_model (Tool \<lparr>fn_name = ''lookup'', fn_doc = None,
         fn_type_hints = Inl (Exn ''NameError'' [''Exception''] ''name `EchoParams` is not defined''),
         fn_call = \<lambda>(ctx::unit) (p::unit). Inr ()\<rparr>
         :: (unit, unit, unit, string) Tool)
     = Inl (Exn ''NameError'' [''Exception''] ''name `EchoParams` is not defined'')"
  using construction_never_fails
    [of "\<lparr>fn_name = ''lookup'', fn_doc = None,
         fn_type_hints = Inr [''context'' \<mapsto> ''SimpleContext'', ''return'' \<mapsto> ''EchoResult''],
         fn_call = \<lambda>(ctx::unit) (p::unit). Inr ()\<rparr>"]
    construction_never_fails
    [of "\<lparr>fn_name = ''lookup'', fn_doc = None,
         fn_type_hints = Inl (Exn ''NameError'' [''Exception''] ''name `EchoParams` is not defined''),
         fn_call = \<lambda>(ctx::unit) (p::unit). Inr ()\<rparr> :: (unit, unit, unit, string) IToolFn"]
  by simp

text \<open>
  Claim C6 as stated fails: for a handler with no \<^verbatim>\<open>parameters\<close> annotation the
  function \<^verbatim>\<open>tool\<close> returns a descriptor.
\<close>

theorem construction_without_parameters_counterexample:
  "tool \<lparr>fn_name = ''lookup'', fn_doc = None,
         fn_type_hints = Inr [''context'' \<mapsto> ''SimpleContext'', ''return'' \<mapsto> ''EchoResult''],
         fn_call = \<lambda>(ctx::unit) (p::unit). Inr ()\<rparr>
     = Inr (Tool \<lparr>fn_name = ''lookup'', fn_doc = None,
         fn_type_hints = Inr [''context'' \<mapsto> ''SimpleContext'', ''return'' \<mapsto> ''EchoResult''],
         fn_call = \<lambda>(ctx::unit) (p::unit). Inr ()\<rparr>)"
  by (simp add: tool_def Tool_init_def)

text \<open>
  Claim C7, in the form that holds of the code. Calling a descriptor whose handler raises
  raises the handler's own exception, unchanged.
\<close>

theorem call_raises_what_handler_raises:
  "tool fn = Inr t \<Longrightarrow> fn_call fn ctx parameters = Inl e \<Longrightarrow> Tool_call t ctx parameters = Inl e"
  by (auto simp add: tool_def Tool_init_def Tool_call_def)

text \<open>A calculator that refuses to divide by zero, called with 10 and 0.\<close>

theorem call_raises_what_handler_raises_witness:
  "Tool_call
     (Tool \<lparr>fn_name = ''calculator'', fn_doc = Some ''Perform basic arithmetic operations.'',
            fn_type_hints = Inr [''parameters'' \<mapsto> ''CalculatorParams''],
            fn_call = \<lambda>(ctx::unit) (p::int \<times> int).
               if snd p = 0 then Inl (Exn ''ValueError'' [''Exception''] ''Cannot divide by zero'')
               else Inr (fst p div snd p)\<rparr>)
     () (10, 0)
   = Inl (Exn ''ValueError'' [''Exception''] ''Cannot divide by zero'')"
  using call_raises_what_handler_raises
    [of "\<lparr>fn_name = ''calculator'', fn_doc = Some ''Perform basic arithmetic operations.'',
            fn_type_hints = Inr [''parameters'' \<mapsto> ''CalculatorParams''],
            fn_call = \<lambda>(ctx::unit) (p::int \<times> int).
               if snd p = 0 then Inl (Exn ''ValueError'' [''Exception''] ''Cannot divide by zero'')
               else Inr (fst p div snd p)\<rparr>" _ "()" "(10, 0)"
        "Exn ''ValueError'' [''Exception''] ''Cannot divide by zero''"]
  by (simp add: tool_def Tool_init_def)

text \<open>
  Claim C7 as stated fails: the ValueError of the handler reaches the caller as it is, and
  it is no HandlerExecutionError.
\<close>

theorem handler_error_not_wrapped_counterexample:
  "Tool_call
     (Tool \<lparr>fn_name = ''calculator'', fn_doc = Some ''Perform basic arithmetic operations.'',
            fn_type_hints = Inr [''parameters'' \<mapsto> ''CalculatorParams''],
            fn_call = \<lambda>(ctx::unit) (p::int \<times> int).
               if snd p = 0 then Inl (Exn ''ValueError'' [''Exception''] ''Cannot divide by zero'')
               else Inr (fst p div snd p)\<rparr>)
     () (10, 0)
   = Inl (Exn ''ValueError'' [''Exception''] ''Cannot divide by zero'')
   \<and> \<not> isinstance (Exn ''ValueError'' [''Exception''] ''Cannot divide by zero'') ''HandlerExecutionError''"
  by (simp add: Tool_call_def isinstance_def)


section \<open>The agent: registry and step\<close>

lemma find_append_cases:
  "find P (xs @ ys) = (case find P xs of None \<Rightarrow> find P ys | Some x \<Rightarrow> Some x)"
  by (induction xs) simp_all

lemma fold_update_lookup:
  "fold (\<lambda>x d. d(name x \<mapsto> x)) ts d n =
     (case find (\<lambda>x. name x = n) (rev ts) of None \<Rightarrow> d n | Some x \<Rightarrow> Some x)"
proof (induction ts arbitrary: d)
  case Nil
  show ?case by simp
next
  case (Cons t ts)
  have "fold (\<lambda>x d. d(name x \<mapsto> x)) (t # ts) d n =
        fold (\<lambda>x d. d(name x \<mapsto> x)) ts (d(name t \<mapsto> t)) n"
    by (simp only: fold_simps)
  also have "\<dots> = (case find (\<lambda>x. name x = n) (rev ts) of
                       None \<Rightarrow> (d(name t \<mapsto> t)) n | Some x \<Rightarrow> Some x)"
    by (rule Cons.IH)
  also have "\<dots> = (case find (\<lambda>x. name x = n) (rev (t # ts)) of None \<Rightarrow> d n | Some x \<Rightarrow> Some x)"
    by (simp add: find_append_cases split: option.split)
  finally show ?case .
qed

text \<open>
  Claim C5, in the form that holds of the code. Building an agent from any list of tools,
  without a conversation dump, succeeds, also when two tools share a name. The dictionary
  of tools maps a name to the last tool of the list that bears it, so that the order of
  the list decides which of two tools of one name is found.
\<close>

theorem duplicate_names_last_wins:
  "PatchedAgent_init A tools ctx sm None part =
     Inr \<lparr>agent_tools = tools, agent_context = ctx,
          agent_conversation =
            (case sm of Some message \<Rightarrow> set_system_message Conversation_new message
                      | None \<Rightarrow> Conversation_new),
          get_tools_system_message_part = part\<rparr>
   \<and> tools_by_name agent n = find (\<lambda>x. name x = n) (rev (agent_tools agent))"
  by (simp add: PatchedAgent_init_def tools_by_name_def fold_update_lookup split: option.split)

text \<open>
  Claim C5 as stated fails: two tools named \<^verbatim>\<open>echo\<close> build an agent, in which the
  name finds the tool that comes second in the list.
\<close>

theorem duplicate_names_accepted_counterexample:
  "PatchedAgent_init (example_aikernel \<lparr>message_text = ''Hello!'', chosen_tool_name = None\<rparr> [])
     [echo, strict_echo] () None None (None :: unit option) =
     Inr \<lparr>agent_tools = [echo, strict_echo], agent_context = (),
          agent_conversation = Conversation_new, get_tools_system_message_part = None\<rparr>
   \<and> name echo = name strict_echo
   \<and> tools_by_name \<lparr>agent_tools = [echo, strict_echo], agent_context = (),
          agent_conversation = Conversation_new, get_tools_system_message_part = (None :: unit option)\<rparr>
        ''echo'' = Some strict_echo
   \<and> tools_by_name \<lparr>agent_tools = [strict_echo, echo], agent_context = (),
          agent_conversation = Conversation_new, get_tools_system_message_part = (None :: unit option)\<rparr>
        ''echo'' = Some echo"
  by (simp add: PatchedAgent_init_def tools_by_name_def echo_def strict_echo_def)

lemma step_after_decision:
  assumes "llm_structured A (conversation_render A (add_user_message (agent_conversation agent) um)) router
           = Inr am"
  shows "step A agent um router =
     (case use_chosen_tool A agent router
             ((agent_conversation agent)
                \<lparr>turns := turns (agent_conversation agent) @
                   [UserTurn um, AssistantTurn (LLMSystemMessage [LLMMessagePart (message_text am)])]\<rparr>)
             (chosen_tool_name am) of
        Inl e \<Rightarrow>
          (Inl e,
           agent\<lparr>agent_conversation :=
             session_rollback A e (agent_conversation agent)
               ((agent_conversation agent)
                  \<lparr>turns := turns (agent_conversation agent) @
                     [UserTurn um, AssistantTurn (LLMSystemMessage [LLMMessagePart (message_text am)])]\<rparr>)\<rparr>)
      | Inr tm \<Rightarrow>
          (Inr \<lparr>assistant_message = LLMSystemMessage [LLMMessagePart (message_text am)],
                tool_message = tm\<rparr>,
           agent\<lparr>agent_conversation :=
             (agent_conversation agent)
                \<lparr>turns := turns (agent_conversation agent) @
                   [UserTurn um, AssistantTurn (LLMSystemMessage [LLMMessagePart (message_text am)])]\<rparr>\<rparr>))"
proof -
  have c2: "add_assistant_message (add_user_message (agent_conversation agent) um)
              (LLMSystemMessage [LLMMessagePart (message_text am)]) =
            (agent_conversation agent)
                \<lparr>turns := turns (agent_conversation agent) @
                   [UserTurn um, AssistantTurn (LLMSystemMessage [LLMMessagePart (message_text am)])]\<rparr>"
    by (simp add: add_assistant_message_def add_user_message_def)
  show ?thesis
    unfolding step_def Let_def using assms by (simp only: c2 sum.case)
qed

lemmas example_simps =
  example_aikernel_def example_agent_def echo_def strict_echo_def
  tools_by_name_def tool_parameters_def request_parameters_def response_arguments_def
  add_user_message_def add_assistant_message_def isinstance_def

text \<open>
  Claim C3, in the form that holds of the code. When the decision names a tool that the
  agent does not have, the step raises FrizzError with the message \<^verbatim>\<open>Tool ... not found\<close>.
  It is raised after the user message and the assistant message were both appended; no
  tool turn was appended. The conversation that remains is what the session makes of the
  conversation at entry and of the one holding the two new turns.
\<close>

theorem unknown_tool_raises_FrizzError:
  assumes decision: "llm_structured A (conversation_render A (add_user_message (agent_conversation agent) um))
                       router = Inr am"
    and chosen: "chosen_tool_name am = Some n"
    and unknown: "tools_by_name agent n = None"
  shows "step A agent um router =
     (Inl (FrizzError (''Tool '' @ n @ '' not found'')),
      agent\<lparr>agent_conversation :=
        session_rollback A (FrizzError (''Tool '' @ n @ '' not found'')) (agent_conversation agent)
          ((agent_conversation agent)
             \<lparr>turns := turns (agent_conversation agent) @
                [UserTurn um, AssistantTurn (LLMSystemMessage [LLMMessagePart (message_text am)])]\<rparr>)\<rparr>)"
proof -
  have "use_chosen_tool A agent router
          ((agent_conversation agent)
             \<lparr>turns := turns (agent_conversation agent) @
                [UserTurn um, AssistantTurn (LLMSystemMessage [LLMMessagePart (message_text am)])]\<rparr>)
          (chosen_tool_name am) = Inl (FrizzError (''Tool '' @ n @ '' not found''))"
    using chosen unknown by (simp add: use_chosen_tool_def)
  then show ?thesis
    by (simp only: step_after_decision [OF decision] sum.case)
qed

text \<open>The theorem at an agent with two tools, neither named \<^verbatim>\<open>search\<close>.\<close>

theorem unknown_tool_raises_FrizzError_witness:
  "step (example_aikernel \<lparr>message_text = ''Let me search.'', chosen_tool_name = Some ''search''\<rparr> [])
     (example_agent [echo, strict_echo]) (LLMUserMessage [LLMMessagePart ''Find it.'']) ()
   = (Inl (FrizzError ''Tool search not found''), example_agent [echo, strict_echo])"
  using unknown_tool_raises_FrizzError
    [of "example_aikernel \<lparr>message_text = ''Let me search.'', chosen_tool_name = Some ''search''\<rparr> []"
        "example_agent [echo, strict_echo]" "LLMUserMessage [LLMMessagePart ''Find it.'']" "()"
        "\<lparr>message_text = ''Let me search.'', chosen_tool_name = Some ''search''\<rparr>" "''search''"]
  by (simp add: example_simps)

text \<open>
  Claim C3 as stated fails: the exception for the unknown tool \<^verbatim>\<open>search\<close> is a FrizzError
  and no UnknownToolSelectedError. Under a session that restores the conversation it was
  entered with, the user turn is gone with the assistant turn; under a session that
  restores nothing, both turns stay.
\<close>

theorem unknown_tool_counterexample:
  "step (example_aikernel \<lparr>message_text = ''Let me search.'', chosen_tool_name = Some ''search''\<rparr> [])
     (example_agent [echo]) (LLMUserMessage [LLMMessagePart ''Hello, world!'']) ()
   = (Inl (FrizzError ''Tool search not found''), example_agent [echo])
   \<and> \<not> isinstance (FrizzError ''Tool search not found'') ''UnknownToolSelectedError''
   \<and> step ((example_aikernel \<lparr>message_text = ''Let me search.'', chosen_tool_name = Some ''search''\<rparr> [])
              \<lparr>session_rollback := (\<lambda>e c0 c. c)\<rparr>)
       (example_agent [echo]) (LLMUserMessage [LLMMessagePart ''Hello, world!'']) ()
     = (Inl (FrizzError ''Tool search not found''),
        (example_agent [echo])
          \<lparr>agent_conversation :=
             \<lparr>system_message = Some (LLMSystemMessage [LLMMessagePart ''You are a helpful assistant.'']),
              turns = [UserTurn (LLMUserMessage [LLMMessagePart ''Hello, world!'']),
                       AssistantTurn (LLMSystemMessage [LLMMessagePart ''Let me search.''])]\<rparr>\<rparr>)"
  by (simp add: step_def Let_def use_chosen_tool_def example_simps FrizzError_def)

text \<open>
  Claim C1, in the form that holds of the code. When the decision selects a tool of the
  agent, its parameters are obtained and validated, and the call of the tool raises an
  \<^verbatim>\<open>Exception\<close>, the step raises FrizzError with the message
  \<^verbatim>\<open>Error calling tool: ...\<close>. No tool result is recorded: the conversation that remains is
  what the session makes of the conversation at entry and of the one holding the user
  turn and the assistant turn.
\<close>

theorem handler_failure_raises_FrizzError:
  assumes decision: "llm_structured A (conversation_render A (add_user_message (agent_conversation agent) um))
                       router = Inr am"
    and chosen: "chosen_tool_name am = Some n"
    and registered: "tools_by_name agent n = Some chosen_tool"
    and valid: "tool_parameters A router
                  ((agent_conversation agent)
                     \<lparr>turns := turns (agent_conversation agent) @
                        [UserTurn um, AssistantTurn (LLMSystemMessage [LLMMessagePart (message_text am)])]\<rparr>)
                  chosen_tool = Inr parameters"
    and raises: "tool_call chosen_tool (agent_context agent) parameters
                  ((agent_conversation agent)
                     \<lparr>turns := turns (agent_conversation agent) @
                        [UserTurn um, AssistantTurn (LLMSystemMessage [LLMMessagePart (message_text am)])]\<rparr>)
                  = Inl error"
    and exc: "isinstance error ''Exception''"
  shows "step A agent um router =
     (Inl (FrizzError (''Error calling tool: '' @ exn_str error)),
      agent\<lparr>agent_conversation :=
        session_rollback A (FrizzError (''Error calling tool: '' @ exn_str error)) (agent_conversation agent)
          ((agent_conversation agent)
             \<lparr>turns := turns (agent_conversation agent) @
                [UserTurn um, AssistantTurn (LLMSystemMessage [LLMMessagePart (message_text am)])]\<rparr>)\<rparr>)"
proof -
  have "use_chosen_tool A agent router
          ((agent_conversation agent)
             \<lparr>turns := turns (agent_conversation agent) @
                [UserTurn um, AssistantTurn (LLMSystemMessage [LLMMessagePart (message_text am)])]\<rparr>)
          (chosen_tool_name am) = Inl (FrizzError (''Error calling tool: '' @ exn_str error))"
    using chosen registered valid raises exc by (simp add: use_chosen_tool_def)
  then show ?thesis
    by (simp only: step_after_decision [OF decision] sum.case)
qed

text \<open>The theorem at the agent with both tools, where the name finds the second.\<close>

theorem handler_failure_raises_FrizzError_witness:
  "step (example_aikernel \<lparr>message_text = ''I will echo that.'', chosen_tool_name = Some ''echo''\<rparr>
           [(''message'', [])])
     (example_agent [echo, strict_echo]) (LLMUserMessage [LLMMessagePart ''Nothing, please.'']) ()
   = (Inl (FrizzError ''Error calling tool: nothing to echo''), example_agent [echo, strict_echo])"
  using handler_failure_raises_FrizzError
    [of "example_aikernel \<lparr>message_text = ''I will echo that.'', chosen_tool_name = Some ''echo''\<rparr>
           [(''message'', [])]"
        "example_agent [echo, strict_echo]" "LLMUserMessage [LLMMessagePart ''Nothing, please.'']" "()"
        "\<lparr>message_text = ''I will echo that.'', chosen_tool_name = Some ''echo''\<rparr>" "''echo''"
        strict_echo "[]" "Exn ''ValueError'' [''Exception''] ''nothing to echo''"]
  by (simp add: example_simps)

text \<open>
  Claim C1 as stated fails: with a handler that raises ValueError on the empty message,
  the step does not return a result; it raises FrizzError.
\<close>

theorem handler_failure_counterexample:
  "step (example_aikernel \<lparr>message_text = ''I will echo that.'', chosen_tool_name = Some ''echo''\<rparr>
           [(''message'', [])])
     (example_agent [strict_echo]) (LLMUserMessage [LLMMessagePart ''Say nothing.'']) ()
   = (Inl (FrizzError ''Error calling tool: nothing to echo''), example_agent [strict_echo])"
  by (simp add: step_def Let_def use_chosen_tool_def example_simps FrizzError_def)

text \<open>
  What the step does when the tool returns. When the decision selects a tool of the
  agent, its parameters are obtained and validated, and the call of the tool returns, the
  step appends two turns, the user turn and the assistant turn, and no tool turn; it
  returns the assistant message with \<^verbatim>\<open>tool_message = None\<close>, whatever the handler
  returned (lines 102 and 103).
\<close>

lemma tool_step_keeps_no_tool_result:
  assumes decision: "llm_structured A (conversation_render A (add_user_message (agent_conversation agent) um))
                       router = Inr am"
    and chosen: "chosen_tool_name am = Some n"
    and registered: "tools_by_name agent n = Some chosen_tool"
    and valid: "tool_parameters A router
                  ((agent_conversation agent)
                     \<lparr>turns := turns (agent_conversation agent) @
                        [UserTurn um, AssistantTurn (LLMSystemMessage [LLMMessagePart (message_text am)])]\<rparr>)
                  chosen_tool = Inr parameters"
    and returns: "tool_call chosen_tool (agent_context agent) parameters
                  ((agent_conversation agent)
                     \<lparr>turns := turns (agent_conversation agent) @
                        [UserTurn um, AssistantTurn (LLMSystemMessage [LLMMessagePart (message_text am)])]\<rparr>)
                  = Inr output"
  shows "step A agent um router =
     (Inr \<lparr>assistant_message = LLMSystemMessage [LLMMessagePart (message_text am)],
           tool_message = None\<rparr>,
      agent\<lparr>agent_conversation :=
        (agent_conversation agent)
           \<lparr>turns := turns (agent_conversation agent) @
              [UserTurn um, AssistantTurn (LLMSystemMessage [LLMMessagePart (message_text am)])]\<rparr>\<rparr>)"
proof -
  have "use_chosen_tool A agent router
          ((agent_conversation agent)
             \<lparr>turns := turns (agent_conversation agent) @
                [UserTurn um, AssistantTurn (LLMSystemMessage [LLMMessagePart (message_text am)])]\<rparr>)
          (chosen_tool_name am) = Inr None"
    using chosen registered valid returns by (simp add: use_chosen_tool_def)
  then show ?thesis
    by (simp only: step_after_decision [OF decision] sum.case)
qed

text \<open>The lemma at the tool that raises on the empty message only.\<close>

lemma tool_step_keeps_no_tool_result_example:
  "step (example_aikernel \<lparr>message_text = ''I will echo that.'', chosen_tool_name = Some ''echo''\<rparr>
           [(''message'', ''Good morning'')])
     (example_agent [strict_echo]) (LLMUserMessage [LLMMessagePart ''Good morning'']) ()
   = (Inr \<lparr>assistant_message = LLMSystemMessage [LLMMessagePart ''I will echo that.''],
           tool_message = None\<rparr>,
      (example_agent [strict_echo])
        \<lparr>agent_conversation :=
           \<lparr>system_message = Some (LLMSystemMessage [LLMMessagePart ''You are a helpful assistant.'']),
            turns = [UserTurn (LLMUserMessage [LLMMessagePart ''Good morning'']),
                     AssistantTurn (LLMSystemMessage [LLMMessagePart ''I will echo that.''])]\<rparr>\<rparr>)"
  using tool_step_keeps_no_tool_result
    [of "example_aikernel \<lparr>message_text = ''I will echo that.'', chosen_tool_name = Some ''echo''\<rparr>
           [(''message'', ''Good morning'')]"
        "example_agent [strict_echo]" "LLMUserMessage [LLMMessagePart ''Good morning'']" "()"
        "\<lparr>message_text = ''I will echo that.'', chosen_tool_name = Some ''echo''\<rparr>" "''echo''"
        strict_echo "''Good morning''" "''Echo: Good morning''"]
  by (simp add: example_simps)

text \<open>
  Claim C2. The code does not do what the claim says: the step that selects the
  registered tool \<^verbatim>\<open>echo\<close> with a valid message appends the user turn and the assistant
  turn only, no tool-invocation and no tool-result turn, and returns no tool message,
  although the handler returns \<^verbatim>\<open>Echo: Hello, world!\<close>.
\<close>

theorem tool_step_discards_tool_result:
  "step (example_aikernel \<lparr>message_text = ''I will echo that.'', chosen_tool_name = Some ''echo''\<rparr>
           [(''message'', ''Hello, world!'')])
     (example_agent [echo]) (LLMUserMessage [LLMMessagePart ''Hello, world!'']) ()
   = (Inr \<lparr>assistant_message = LLMSystemMessage [LLMMessagePart ''I will echo that.''],
           tool_message = None\<rparr>,
      (example_agent [echo])
        \<lparr>agent_conversation :=
           \<lparr>system_message = Some (LLMSystemMessage [LLMMessagePart ''You are a helpful assistant.'']),
            turns = [UserTurn (LLMUserMessage [LLMMessagePart ''Hello, world!'']),
                     AssistantTurn (LLMSystemMessage [LLMMessagePart ''I will echo that.''])]\<rparr>\<rparr>)
   \<and> tool_call echo () ''Hello, world!''
        \<lparr>system_message = Some (LLMSystemMessage [LLMMessagePart ''You are a helpful assistant.'']),
         turns = [UserTurn (LLMUserMessage [LLMMessagePart ''Hello, world!'']),
                  AssistantTurn (LLMSystemMessage [LLMMessagePart ''I will echo that.''])]\<rparr>
       = Inr ''Echo: Hello, world!''"
  by (simp add: step_def Let_def use_chosen_tool_def example_simps)

end
